theory Spec2Isabelle
  imports Main "HOL-Library.Word"
begin

section \<open>Values shared by the backend modules\<close>

text \<open>
  A \<open>Buffer\<close> or \<open>Uint8Array\<close> is a list of bytes. Hex strings, passwords, metadata
  values and messages are strings.
\<close>

type_synonym byte = "8 word"
type_synonym bytes = "byte list"

text \<open>
  Exceptions thrown by the libraries the backend calls (Node's \<open>crypto\<close>, noble-ed25519,
  pdf-lib, mongoose). The backend never inspects the exception value.
\<close>

datatype exn = AuthTagMismatch | InvalidArgument | PdfParseError | DatabaseError

text \<open>\<open>try { body } catch (error) { handler }\<close>\<close>

definition try_catch :: "exn + 'a \<Rightarrow> (exn \<Rightarrow> exn + 'a) \<Rightarrow> exn + 'a" where
  "try_catch body handler = (case body of Inl e \<Rightarrow> handler e | Inr v \<Rightarrow> Inr v)"

text \<open>
  \<open>x || d\<close> on a value that is a string or \<open>undefined\<close>: the empty string is falsy too.
\<close>

definition js_or :: "string option \<Rightarrow> string \<Rightarrow> string" where
  "js_or x d = (case x of None \<Rightarrow> d | Some s \<Rightarrow> if s = [] then d else s)"

subsection \<open>Hex strings: \<open>Buffer.from(s, 'hex')\<close> and \<open>buf.toString('hex')\<close>\<close>

definition is_hex :: "char \<Rightarrow> bool" where
  "is_hex c \<longleftrightarrow> c \<in> set ''0123456789abcdefABCDEF''"

definition hex_val :: "char \<Rightarrow> nat option" where
  "hex_val c =
     (if c \<in> set ''0123456789'' then Some (of_char c - 48)
      else if c \<in> set ''abcdef'' then Some (of_char c - 87)
      else if c \<in> set ''ABCDEF'' then Some (of_char c - 55)
      else None)"

definition hex_digit :: "nat \<Rightarrow> char" where
  "hex_digit n = ''0123456789abcdef'' ! n"

text \<open>
  Node decodes two hex digits per byte and stops, without an exception, at the first pair
  that is not hex; a trailing single character is dropped.
\<close>

fun buffer_from_hex :: "string \<Rightarrow> bytes" where
  "buffer_from_hex (a # b # cs) =
     (case (hex_val a, hex_val b) of
        (Some h, Some l) \<Rightarrow> of_nat (16 * h + l) # buffer_from_hex cs
      | _ \<Rightarrow> [])"
| "buffer_from_hex _ = []"

definition to_hex_string :: "bytes \<Rightarrow> string" where
  "to_hex_string bs =
     concat (map (\<lambda>b. [hex_digit (unat b div 16), hex_digit (unat b mod 16)]) bs)"

subsection \<open>\<open>subarray\<close>, \<open>split\<close>, \<open>trim\<close>, \<open>join\<close>, \<open>replace\<close>\<close>

text \<open>A negative index of \<open>subarray\<close> counts from the end; both ends are clamped.\<close>

definition rel_index :: "nat \<Rightarrow> int \<Rightarrow> nat" where
  "rel_index len i = (if i < 0 then nat (max (int len + i) 0) else min (nat i) len)"

definition subarray :: "'a list \<Rightarrow> int \<Rightarrow> int \<Rightarrow> 'a list" where
  "subarray xs b e =
     (let i = rel_index (length xs) b; j = rel_index (length xs) e
      in take (j - i) (drop i xs))"

fun split_on :: "char \<Rightarrow> string \<Rightarrow> string list" where
  "split_on sep [] = [[]]"
| "split_on sep (c # cs) =
     (if c = sep then [] # split_on sep cs
      else (case split_on sep cs of w # ws \<Rightarrow> (c # w) # ws | [] \<Rightarrow> [[c]]))"

definition is_space :: "char \<Rightarrow> bool" where
  "is_space c \<longleftrightarrow> (of_char c :: nat) \<in> {9, 10, 11, 12, 13, 32, 160}"

definition trim :: "string \<Rightarrow> string" where
  "trim s = rev (dropWhile is_space (rev (dropWhile is_space s)))"

fun join_with :: "string \<Rightarrow> string list \<Rightarrow> string" where
  "join_with sep [] = []"
| "join_with sep [x] = x"
| "join_with sep (x # y # ys) = x @ sep @ join_with sep (y # ys)"

text \<open>\<open>s.replace(pat, rep)\<close> with a string pattern replaces the first occurrence only.\<close>

fun replace_first :: "string \<Rightarrow> string \<Rightarrow> string \<Rightarrow> string" where
  "replace_first pat rep [] = (if pat = [] then rep else [])"
| "replace_first pat rep (c # cs) =
     (if take (length pat) (c # cs) = pat then rep @ drop (length pat) (c # cs)
      else c # replace_first pat rep cs)"

text \<open>
  A regular expression of the shape \<open>lit[a-fA-F0-9]+\<close>, searched from the left: the first
  position where the literal is followed by at least one hex digit matches, and the
  greedy \<open>+\<close> takes the whole run of hex digits. The result is the text before the match,
  the captured run, and the text after the match.
\<close>

fun regex_search :: "string \<Rightarrow> string \<Rightarrow> (string \<times> string \<times> string) option" where
  "regex_search lit [] = None"
| "regex_search lit (c # cs) =
     (let rest = drop (length lit) (c # cs); run = takeWhile is_hex rest
      in if take (length lit) (c # cs) = lit \<and> run \<noteq> []
         then Some ([], run, dropWhile is_hex rest)
         else map_option (\<lambda>(pre, h, post). (c # pre, h, post)) (regex_search lit cs))"

text \<open>\<open>s.match(re)\<close>, reduced to its capture group 1, and \<open>s.replace(re, '')\<close>.\<close>

definition regex_match :: "string \<Rightarrow> string \<Rightarrow> string option" where
  "regex_match lit s = map_option (\<lambda>(pre, h, post). h) (regex_search lit s)"

definition regex_remove :: "string \<Rightarrow> string \<Rightarrow> string" where
  "regex_remove lit s =
     (case regex_search lit s of None \<Rightarrow> s | Some (pre, h, post) \<Rightarrow> pre @ post)"

section \<open>Data\<close>

text \<open>
  A string object of a PDF is written either as a literal string or as a hex string;
  pdf-lib keeps the two apart (\<open>PDFString\<close>, \<open>PDFHexString\<close>) and serialises each the way
  it was read or made. Both decode to a text.
\<close>

datatype info_string = PDFString string | PDFHexString string

fun decodeText :: "info_string \<Rightarrow> string" where
  "decodeText (PDFString t) = t"
| "decodeText (PDFHexString t) = t"

text \<open>
  A parsed PDF document (pdf-lib's \<open>PDFDocument\<close>): the entries of its Info dictionary
  that the backend reads or writes, each absent or a string object, and everything else.
\<close>

record pdf_doc =
  Title :: "info_string option"
  Subject :: "info_string option"
  Keywords :: "info_string option"
  Producer :: "info_string option"
  Creator :: "info_string option"
  content :: bytes

text \<open>
  pdf-lib's getters give the decoded text of an entry, or \<open>undefined\<close>. Its setters
  replace the entry by a hex string made from the text (\<open>PDFHexString.fromText\<close>), also
  when the text is the one the entry already had; \<open>setKeywords\<close> joins the list with
  single spaces first.
\<close>

definition getTitle :: "pdf_doc \<Rightarrow> string option" where
  "getTitle d = map_option decodeText (Title d)"

definition getSubject :: "pdf_doc \<Rightarrow> string option" where
  "getSubject d = map_option decodeText (Subject d)"

definition getKeywords :: "pdf_doc \<Rightarrow> string option" where
  "getKeywords d = map_option decodeText (Keywords d)"

definition getProducer :: "pdf_doc \<Rightarrow> string option" where
  "getProducer d = map_option decodeText (Producer d)"

definition getCreator :: "pdf_doc \<Rightarrow> string option" where
  "getCreator d = map_option decodeText (Creator d)"

definition setTitle :: "string \<Rightarrow> pdf_doc \<Rightarrow> pdf_doc" where
  "setTitle t d = d\<lparr>Title := Some (PDFHexString t)\<rparr>"

definition setSubject :: "string \<Rightarrow> pdf_doc \<Rightarrow> pdf_doc" where
  "setSubject t d = d\<lparr>Subject := Some (PDFHexString t)\<rparr>"

definition setKeywords :: "string list \<Rightarrow> pdf_doc \<Rightarrow> pdf_doc" where
  "setKeywords ks d = d\<lparr>Keywords := Some (PDFHexString (join_with '' '' ks))\<rparr>"

definition setProducer :: "string \<Rightarrow> pdf_doc \<Rightarrow> pdf_doc" where
  "setProducer t d = d\<lparr>Producer := Some (PDFHexString t)\<rparr>"

definition setCreator :: "string \<Rightarrow> pdf_doc \<Rightarrow> pdf_doc" where
  "setCreator t d = d\<lparr>Creator := Some (PDFHexString t)\<rparr>"

text \<open>The stored user (\<open>models/User.ts\<close>), the fields the controllers read.\<close>

record user =
  u_id :: string
  u_email :: string
  u_publicKey :: string
  u_encryptedPrivateKey :: string
  u_iv :: string
  u_salt :: string

text \<open>
  A registry record as \<open>findOne(...).populate('signer', 'email publicKey')\<close> returns it;
  \<open>signer\<close> is null when the referenced user no longer exists.
\<close>

record signer_info =
  signer_email :: string
  signer_publicKey :: string

record doc_record =
  signer :: "signer_info option"
  createdAt :: nat

record doc_entry =
  e_hash :: string
  e_signature :: string
  e_signer :: string
  e_fileName :: string

record derived_key =
  dek :: bytes
  salt :: string


record 'b extracted =
  signature :: string
  publicKey :: string
  strippedPdfBuffer :: 'b

text \<open>
  The libraries and stores the backend is written against. The type \<open>'b\<close> is the
  serialised form of a PDF (the buffer that is uploaded, hashed and sent back).
\<close>

record 'b libs =
  pdf_load :: "'b \<Rightarrow> exn + pdf_doc"
  pdf_save :: "pdf_doc \<Rightarrow> 'b"
  sha256_digest :: "'b \<Rightarrow> bytes"
  pbkdf2Sync :: "string \<Rightarrow> bytes \<Rightarrow> nat \<Rightarrow> nat \<Rightarrow> bytes"
  randomBytes :: "nat \<Rightarrow> bytes"
  gcm_seal :: "bytes \<Rightarrow> bytes \<Rightarrow> bytes \<Rightarrow> exn + bytes \<times> bytes"
  gcm_open :: "bytes \<Rightarrow> bytes \<Rightarrow> bytes \<Rightarrow> bytes \<Rightarrow> exn + bytes"
  ed_sign :: "bytes \<Rightarrow> bytes \<Rightarrow> exn + bytes"
  ed_verify :: "bytes \<Rightarrow> bytes \<Rightarrow> bytes \<Rightarrow> exn + bool"
  User_findById :: "string \<Rightarrow> exn + user option"
  User_findOne :: "string \<Rightarrow> exn + user option"
  Document_findOne :: "string \<Rightarrow> exn + doc_record option"
  Document_create :: "doc_entry \<Rightarrow> exn + unit"

section \<open>\<open>utils/cryptoUtils.ts\<close>\<close>

text \<open>
  \<open>rnd\<close> is what \<open>randomBytes\<close> returns in this call. A salt that is \<open>undefined\<close> or the
  empty string is falsy, and a fresh one is drawn.
\<close>

definition deriveKeyFromPassword ::
  "'b libs \<Rightarrow> bytes \<Rightarrow> string \<Rightarrow> string option \<Rightarrow> derived_key" where
  "deriveKeyFromPassword L rnd password salt_opt =
     (let saltBuffer = (case salt_opt of
                          None \<Rightarrow> rnd
                        | Some s \<Rightarrow> if s = [] then rnd else buffer_from_hex s);
          k = pbkdf2Sync L password saltBuffer 100000 32
      in \<lparr>dek = k, salt = to_hex_string saltBuffer\<rparr>)"


text \<open>
  The buffers that hold key material are kept in a heap, a list of byte arrays addressed
  by position: allocation appends an array and gives its address.
\<close>

type_synonym heap = "bytes list"

definition alloc :: "bytes \<Rightarrow> heap \<Rightarrow> nat \<times> heap" where
  "alloc data hp = (length hp, hp @ [data])"

text \<open>The two parts of the stored buffer: the last 16 bytes, and what is before them.\<close>

definition authTag_of :: "bytes \<Rightarrow> bytes" where
  "authTag_of encryptedBuffer =
     subarray encryptedBuffer (int (length encryptedBuffer) - 16) (int (length encryptedBuffer))"

definition encryptedData_of :: "bytes \<Rightarrow> bytes" where
  "encryptedData_of encryptedBuffer =
     subarray encryptedBuffer 0 (int (length encryptedBuffer) - 16)"

text \<open>
  \<open>gcm_open key iv ciphertext tag\<close> stands for \<open>createDecipheriv\<close>, \<open>setAuthTag\<close>,
  \<open>update\<close> and \<open>final\<close>; \<open>final\<close> throws when the tag does not verify. On success
  \<open>Buffer.concat\<close> allocates the Buffer \<open>decrypted\<close>, which holds the plaintext, and
  \<open>new Uint8Array(decrypted)\<close> allocates a second array and copies the plaintext into
  it. The result is the address of the second array, and the heap with both arrays. The
  chunks that \<open>update\<close> and \<open>final\<close> hand to \<open>Buffer.concat\<close> belong to the library and
  are not in the heap.
\<close>

definition decryptPrivateKey ::
  "'b libs \<Rightarrow> string \<Rightarrow> string \<Rightarrow> bytes \<Rightarrow> heap \<Rightarrow> (exn + nat) \<times> heap" where
  "decryptPrivateKey L encrypted ivHex k hp =
     (let encryptedBuffer = buffer_from_hex encrypted;
          ivBuffer = buffer_from_hex ivHex;
          authTag = authTag_of encryptedBuffer;
          encryptedData = encryptedData_of encryptedBuffer
      in case gcm_open L k ivBuffer encryptedData authTag of
           Inl e \<Rightarrow> (Inl e, hp)
         | Inr plaintext \<Rightarrow>
             (let (decrypted, hp1) = alloc plaintext hp;
                  (copied, hp2) = alloc (hp1 ! decrypted) hp1
              in (Inr copied, hp2)))"

definition signHash :: "'b libs \<Rightarrow> bytes \<Rightarrow> bytes \<Rightarrow> exn + string" where
  "signHash L hash privateKey =
     (case ed_sign L hash privateKey of
        Inl e \<Rightarrow> Inl e
      | Inr sig \<Rightarrow> Inr (to_hex_string sig))"

definition verifySignature :: "'b libs \<Rightarrow> string \<Rightarrow> bytes \<Rightarrow> string \<Rightarrow> exn + bool" where
  "verifySignature L sig hash pk =
     try_catch
       (let signatureBytes = buffer_from_hex sig;
            publicKeyBytes = buffer_from_hex pk
        in ed_verify L signatureBytes hash publicKeyBytes)
       (\<lambda>error. Inr False)"

definition sha256 :: "'b libs \<Rightarrow> 'b \<Rightarrow> bytes" where
  "sha256 L data = sha256_digest L data"

text \<open>\<open>data.fill(0)\<close> on the array at an address.\<close>

definition secureWipe :: "nat \<Rightarrow> heap \<Rightarrow> heap" where
  "secureWipe a hp = hp[a := replicate (length (hp ! a)) 0]"

section \<open>\<open>utils/pdfUtils.ts\<close>\<close>

definition SIGNATURE_KEY :: string where
  "SIGNATURE_KEY = ''AegisSign_Signature''"

definition OWNER_KEY :: string where
  "OWNER_KEY = ''AegisSign_Owner''"

definition hashPdfBuffer :: "'b libs \<Rightarrow> 'b \<Rightarrow> bytes" where
  "hashPdfBuffer L buffer = sha256 L buffer"

text \<open>What \<open>injectSignature\<close> does to the loaded document, between \<open>load\<close> and \<open>save\<close>.\<close>

definition injectSignature_doc :: "pdf_doc \<Rightarrow> string \<Rightarrow> string \<Rightarrow> pdf_doc" where
  "injectSignature_doc d0 sig pk =
     (let d1 = setTitle (js_or (getTitle d0) ''Signed Document'') d0;
          d2 = setSubject (js_or (getSubject d1) []) d1;
          d3 = setKeywords
                 (case getKeywords d2 of
                    None \<Rightarrow> []
                  | Some k \<Rightarrow> map trim (split_on CHR '','' k)) d2;
          existingProducer = js_or (getProducer d3) [];
          existingCreator = js_or (getCreator d3) [];
          d4 = setProducer (existingProducer @ ''||'' @ SIGNATURE_KEY @ '':'' @ sig) d3;
          d5 = setCreator (existingCreator @ ''||'' @ OWNER_KEY @ '':'' @ pk) d4
      in d5)"

definition injectSignature :: "'b libs \<Rightarrow> 'b \<Rightarrow> string \<Rightarrow> string \<Rightarrow> exn + 'b" where
  "injectSignature L pdfBuffer sig pk =
     (case pdf_load L pdfBuffer of
        Inl e \<Rightarrow> Inl e
      | Inr pdfDoc \<Rightarrow> Inr (pdf_save L (injectSignature_doc pdfDoc sig pk)))"

definition normalizePdf :: "'b libs \<Rightarrow> 'b \<Rightarrow> exn + 'b" where
  "normalizePdf L pdfBuffer =
     (case pdf_load L pdfBuffer of
        Inl e \<Rightarrow> Inl e
      | Inr pdfDoc \<Rightarrow> Inr (pdf_save L pdfDoc))"

text \<open>
  What \<open>extractAndStripSignature\<close> does to the loaded document: the two captured hex
  strings and the document with both tokens removed, or \<open>None\<close> for \<open>null\<close>.
\<close>

definition extractAndStripSignature_doc :: "pdf_doc \<Rightarrow> (string \<times> string \<times> pdf_doc) option" where
  "extractAndStripSignature_doc d =
     (let producer = js_or (getProducer d) [];
          creator = js_or (getCreator d) [];
          signatureMatch = regex_match (''||'' @ SIGNATURE_KEY @ '':'') producer;
          publicKeyMatch = regex_match (''||'' @ OWNER_KEY @ '':'') creator
      in case (signatureMatch, publicKeyMatch) of
           (Some sig, Some pk) \<Rightarrow>
             (let cleanProducer = regex_remove (''||'' @ SIGNATURE_KEY @ '':'') producer;
                  cleanCreator = regex_remove (''||'' @ OWNER_KEY @ '':'') creator
              in Some (sig, pk, setCreator cleanCreator (setProducer cleanProducer d)))
         | _ \<Rightarrow> None)"

definition extractAndStripSignature :: "'b libs \<Rightarrow> 'b \<Rightarrow> exn + 'b extracted option" where
  "extractAndStripSignature L pdfBuffer =
     (case pdf_load L pdfBuffer of
        Inl e \<Rightarrow> Inl e
      | Inr pdfDoc \<Rightarrow>
          (case extractAndStripSignature_doc pdfDoc of
             None \<Rightarrow> Inr None
           | Some (sig, pk, stripped) \<Rightarrow>
               Inr (Some \<lparr>signature = sig, publicKey = pk,
                          strippedPdfBuffer = pdf_save L stripped\<rparr>)))"

section \<open>The document controller: requests, responses, the key buffer\<close>

record 'b upload =
  buffer :: 'b
  mimetype :: string
  originalname :: string

text \<open>
  The request after authentication and multipart decoding. An absent password and an
  empty one are both falsy, so \<open>password\<close> is the empty string for either.
\<close>

record 'b request =
  userId :: string
  req_file :: "'b upload option"
  password :: string

text \<open>The JSON body of a response; a field the code does not set is \<open>None\<close>.\<close>

record json_body =
  success :: bool
  message :: string
  verified :: "bool option"
  signerEmail :: "string option"
  signerPublicKey :: "string option"
  signedAt :: "nat option"
  error :: "string option"

definition json :: "bool \<Rightarrow> string \<Rightarrow> json_body" where
  "json s m = \<lparr>success = s, message = m, verified = None, signerEmail = None,
               signerPublicKey = None, signedAt = None, error = None\<rparr>"

text \<open>
  \<open>res.status(n).json(body)\<close>, or \<open>res.send\<close> of a buffer after \<open>setHeader\<close> calls
  (status 200).
\<close>

datatype 'b response = Json nat json_body | Send "(string \<times> string) list" 'b

text \<open>
  The local variable \<open>privateKeyBytes\<close> is null or the address of a \<open>Uint8Array\<close>, and
  the heap holds the arrays that \<open>decryptPrivateKey\<close> allocated, so that an array stays
  observable after the variable is set to null.
\<close>

record key_state =
  privateKeyBytes :: "nat option"
  key_heap :: heap

definition sign_headers :: "string \<Rightarrow> string \<Rightarrow> string \<Rightarrow> (string \<times> string) list" where
  "sign_headers signedFileName signatureHex pk =
     [(''Content-Type'', ''application/pdf''),
      (''Content-Disposition'', ''attachment; filename='' @ [CHR 0x22] @ signedFileName @ [CHR 0x22]),
      (''X-AegisSign-Signature'', signatureHex),
      (''X-AegisSign-PublicKey'', pk)]"

subsection \<open>\<open>signDocument\<close>\<close>

text \<open>
  The body of the \<open>try\<close> block: \<open>Inl\<close> is an exception that reaches the \<open>catch\<close>,
  \<open>Inr\<close> a response sent. With \<open>registry\<close> set this is the controller that also
  records the document in the registry (step 7 there); the two controllers are the same
  otherwise.
\<close>

definition signDocument_try ::
  "bool \<Rightarrow> 'b libs \<Rightarrow> 'b request \<Rightarrow> key_state \<Rightarrow> (exn + 'b response) \<times> key_state" where
  "signDocument_try registry L req st =
     (case req_file req of
        None \<Rightarrow> (Inr (Json 400 (json False ''No file uploaded. Please upload a PDF document.'')), st)
      | Some f \<Rightarrow>
        if password req = [] then
          (Inr (Json 400 (json False ''Password is required to sign documents.'')), st)
        else if mimetype f \<noteq> ''application/pdf'' then
          (Inr (Json 400 (json False ''Only PDF documents can be signed.'')), st)
        else
        (case User_findById L (userId req) of
           Inl e \<Rightarrow> (Inl e, st)
         | Inr None \<Rightarrow> (Inr (Json 404 (json False ''User not found.'')), st)
         | Inr (Some u) \<Rightarrow>
           (case normalizePdf L (buffer f) of
              Inl e \<Rightarrow> (Inl e, st)
            | Inr normalizedPdf \<Rightarrow>
              (let pdfHash = hashPdfBuffer L normalizedPdf;
                   pdfHashHex = to_hex_string pdfHash;
                   k = dek (deriveKeyFromPassword L (randomBytes L 32) (password req)
                              (Some (u_salt u)))
               in case decryptPrivateKey L (u_encryptedPrivateKey u) (u_iv u) k (key_heap st) of
                    (Inl decryptError, hp) \<Rightarrow>
                      (Inr (Json 401
                         (json False ''Invalid password. Unable to decrypt signing key.'')),
                       st\<lparr>key_heap := hp\<rparr>)
                  | (Inr a, hp) \<Rightarrow>
                    (let st1 = st\<lparr>privateKeyBytes := Some a, key_heap := hp\<rparr>
                     in case signHash L pdfHash (key_heap st1 ! a) of
                          Inl e \<Rightarrow> (Inl e, st1)
                        | Inr signatureHex \<Rightarrow>
                          (let st2 = st1\<lparr>key_heap := secureWipe a (key_heap st1),
                                         privateKeyBytes := None\<rparr>
                           in case injectSignature L normalizedPdf signatureHex (u_publicKey u) of
                                Inl e \<Rightarrow> (Inl e, st2)
                              | Inr signedPdfBytes \<Rightarrow>
                                (case (if registry
                                       then Document_create L
                                              \<lparr>e_hash = pdfHashHex, e_signature = signatureHex,
                                               e_signer = u_id u, e_fileName = originalname f\<rparr>
                                       else Inr ()) of
                                   Inl e \<Rightarrow> (Inl e, st2)
                                 | Inr _ \<Rightarrow>
                                   (let signedFileName =
                                          replace_first ''.pdf'' ''_signed.pdf'' (originalname f)
                                    in (Inr (Send (sign_headers signedFileName signatureHex
                                                     (u_publicKey u)) signedPdfBytes), st2)))))))))"

text \<open>
  The whole handler, from \<open>privateKeyBytes = null\<close> and no array allocated: the response,
  and the variable and the arrays as they are when the call returns.
\<close>

definition signDocument_handler ::
  "bool \<Rightarrow> 'b libs \<Rightarrow> 'b request \<Rightarrow> 'b response \<times> key_state" where
  "signDocument_handler registry L req =
     (case signDocument_try registry L req \<lparr>privateKeyBytes = None, key_heap = []\<rparr> of
        (Inr r, st) \<Rightarrow> (r, st)
      | (Inl e, st) \<Rightarrow>
          (Json 500 (json False ''An error occurred while signing the document.''),
           (case privateKeyBytes st of
              Some a \<Rightarrow> st\<lparr>key_heap := secureWipe a (key_heap st)\<rparr>
            | None \<Rightarrow> st)))"

definition signDocument :: "'b libs \<Rightarrow> 'b request \<Rightarrow> 'b response \<times> key_state" where
  "signDocument L req = signDocument_handler False L req"

definition signDocument_registry :: "'b libs \<Rightarrow> 'b request \<Rightarrow> 'b response \<times> key_state" where
  "signDocument_registry L req = signDocument_handler True L req"

subsection \<open>\<open>verifyDocument\<close>, the controller that verifies the signature\<close>

definition verifyDocument_try :: "'b libs \<Rightarrow> 'b request \<Rightarrow> exn + 'b response" where
  "verifyDocument_try L req =
     (case req_file req of
        None \<Rightarrow>
          Inr (Json 400 ((json False ''No file uploaded. Please upload a signed PDF document.'')
                          \<lparr>verified := Some False\<rparr>))
      | Some f \<Rightarrow>
        if mimetype f \<noteq> ''application/pdf'' then
          Inr (Json 400 ((json False ''Only PDF documents can be verified.'')
                          \<lparr>verified := Some False\<rparr>))
        else
        (case extractAndStripSignature L (buffer f) of
           Inl e \<Rightarrow> Inl e
         | Inr None \<Rightarrow>
             Inr (Json 400
                   ((json False ''This document does not contain a valid AegisSign signature.'')
                     \<lparr>verified := Some False\<rparr>))
         | Inr (Some extractedData) \<Rightarrow>
           (let cleanHash = hashPdfBuffer L (strippedPdfBuffer extractedData)
            in case verifySignature L (signature extractedData) cleanHash
                      (publicKey extractedData) of
                 Inl e \<Rightarrow> Inl e
               | Inr isValid \<Rightarrow>
                 if isValid then
                   (case User_findOne L (publicKey extractedData) of
                      Inl e \<Rightarrow> Inl e
                    | Inr signerOpt \<Rightarrow>
                        Inr (Json 200
                              ((json True
                                  (case signerOpt of
                                     Some u \<Rightarrow> ''Document verified! Signed by '' @ u_email u
                                   | None \<Rightarrow> ''Document verified! Signature is valid.''))
                                \<lparr>verified := Some True,
                                 signerPublicKey := Some (publicKey extractedData)\<rparr>)))
                 else
                   Inr (Json 200
                         ((json True
                            ''Signature verification failed. Document may have been tampered with.'')
                           \<lparr>verified := Some False,
                            signerPublicKey := Some (publicKey extractedData)\<rparr>)))))"

definition verifyDocument :: "'b libs \<Rightarrow> 'b request \<Rightarrow> exn + 'b response" where
  "verifyDocument L req =
     try_catch (verifyDocument_try L req)
       (\<lambda>error. Inr (Json 500 ((json False ''An error occurred while verifying the document.'')
                                \<lparr>verified := Some False\<rparr>)))"

subsection \<open>\<open>verifyDocument\<close>, the controller backed by the document registry\<close>

definition verifyDocument_registry_try :: "'b libs \<Rightarrow> 'b request \<Rightarrow> exn + 'b response" where
  "verifyDocument_registry_try L req =
     (case req_file req of
        None \<Rightarrow>
          Inr (Json 400
                ((json False ''No file uploaded. Please upload a PDF document to verify.'')
                  \<lparr>verified := Some False\<rparr>))
      | Some f \<Rightarrow>
        if mimetype f \<noteq> ''application/pdf'' then
          Inr (Json 400 ((json False ''Only PDF documents can be verified.'')
                          \<lparr>verified := Some False\<rparr>))
        else
        (case extractAndStripSignature L (buffer f) of
           Inl e \<Rightarrow> Inl e
         | Inr None \<Rightarrow>
             Inr (Json 200
                   ((json True ''This document was not signed with AegisSign.'')
                     \<lparr>verified := Some False,
                      error := Some ''No AegisSign signature found in document.''\<rparr>))
         | Inr (Some extractedData) \<Rightarrow>
           (case Document_findOne L (signature extractedData) of
              Inl e \<Rightarrow> Inl e
            | Inr documentRecord \<Rightarrow>
              (case (case documentRecord of None \<Rightarrow> None
                     | Some r \<Rightarrow> map_option (Pair r) (signer r)) of
                 None \<Rightarrow>
                   Inr (Json 200
                         ((json True ''Document signature not found in registry.'')
                           \<lparr>verified := Some False,
                            error := Some ''Signature not registered in database.''\<rparr>))
               | Some (r, sg) \<Rightarrow>
                   if publicKey extractedData \<noteq> signer_publicKey sg then
                     Inr (Json 200
                           ((json True
                              ''Public key mismatch. Document may have been tampered with.'')
                             \<lparr>verified := Some False,
                              signerPublicKey := Some (signer_publicKey sg)\<rparr>))
                   else
                     Inr (Json 200
                           ((json True (''Document verified! Signed by '' @ signer_email sg))
                             \<lparr>verified := Some True,
                              signerEmail := Some (signer_email sg),
                              signerPublicKey := Some (signer_publicKey sg),
                              signedAt := Some (createdAt r)\<rparr>))))))"

definition verifyDocument_registry :: "'b libs \<Rightarrow> 'b request \<Rightarrow> exn + 'b response" where
  "verifyDocument_registry L req =
     try_catch (verifyDocument_registry_try L req)
       (\<lambda>error. Inr (Json 500 ((json False ''An error occurred while verifying the document.'')
                                \<lparr>verified := Some False\<rparr>)))"

section \<open>A contract of the cipher\<close>


section \<open>A small instance of the libraries, for concrete runs\<close>

text \<open>
  A serialised PDF is a document with a number that stands for the incidental layout of
  the file: the serialiser always writes layout 0. The digest, the key derivation, the
  authenticated cipher and the signature scheme are toys of the right shape, with keys
  and digests of 4 bytes and signatures of 8. The toy cipher opens what it sealed; its
  tag is made from the first 16 bytes of the key only. The Info entries of the memo are
  hex strings, as pdf-lib writes them.
\<close>

definition toy_digest :: "pdf_doc \<times> nat \<Rightarrow> bytes" where
  "toy_digest b =
     (case b of (d, n) \<Rightarrow>
        [of_nat n,
         of_nat (length (concat (map (\<lambda>f. js_or (f d) ''-'')
                                  [getTitle, getSubject, getKeywords, getProducer, getCreator]))),
         of_nat (length (content d)),
         foldr (+) (content d) 0])"

definition toy_tag :: "bytes \<Rightarrow> bytes" where
  "toy_tag k = take 16 (k @ [0, 0, 0, 0, 0, 0, 0, 0, 0, 0, 0, 0, 0, 0, 0, 0])"

definition alice_key :: string where
  "alice_key = ''01020304''"

definition mallory_key :: string where
  "mallory_key = ''f1f2f3f4''"

definition alice :: user where
  "alice =
     \<lparr>u_id = ''u1'', u_email = ''alice@example.org'',
      u_publicKey = alice_key,
      u_encryptedPrivateKey = ''0102030468756e74657232070707070000000000'',
      u_iv = ''09090909'',
      u_salt = ''07070707''\<rparr>"

definition memo :: pdf_doc where
  "memo =
     \<lparr>Title = Some (PDFHexString ''Memo''), Subject = Some (PDFHexString ''Budget''),
      Keywords = Some (PDFHexString ''q3''), Producer = Some (PDFHexString ''Writer''),
      Creator = Some (PDFHexString ''Office''), content = [37, 80, 68, 70]\<rparr>"

definition memo_signature :: string where
  "memo_signature = ''01020304001804ff''"

definition toy_libs :: "(pdf_doc \<times> nat) libs" where
  "toy_libs =
     \<lparr>pdf_load = (\<lambda>b. Inr (fst b)),
      pdf_save = (\<lambda>d. (d, 0)),
      sha256_digest = toy_digest,
      pbkdf2Sync = (\<lambda>pw s iterations n. map of_char pw @ s),
      randomBytes = (\<lambda>n. replicate n 7),
      gcm_seal = (\<lambda>k n p. Inr (p, toy_tag k)),
      gcm_open = (\<lambda>k n c t. if t = toy_tag k then Inr c else Inl AuthTagMismatch),
      ed_sign = (\<lambda>h k. if length k = 4 then Inr (k @ take 4 h) else Inl InvalidArgument),
      ed_verify = (\<lambda>s h p. if length s = 8 \<and> length p = 4 then Inr (s = p @ take 4 h)
                            else Inl InvalidArgument),
      User_findById = (\<lambda>i. Inr (if i = u_id alice then Some alice else None)),
      User_findOne = (\<lambda>p. Inr (if p = u_publicKey alice then Some alice else None)),
      Document_findOne =
        (\<lambda>s. Inr (if s = memo_signature
                   then Some \<lparr>signer = Some \<lparr>signer_email = u_email alice,
                                              signer_publicKey = u_publicKey alice\<rparr>,
                              createdAt = 17\<rparr>
                   else None)),
      Document_create = (\<lambda>e. Inr ())\<rparr>"

definition pdf_request :: "'b \<Rightarrow> string \<Rightarrow> 'b request" where
  "pdf_request b pw =
     \<lparr>userId = ''u1'',
      req_file = Some \<lparr>buffer = b, mimetype = ''application/pdf'', originalname = ''memo.pdf''\<rparr>,
      password = pw\<rparr>"

text \<open>
  The memo as \<open>alice\<close> signed it; the same file with one content byte changed; the memo
  carrying a signature made with a key that belongs to no stored user; the memo without
  a title; the memo with its title written as a literal string.
\<close>

definition signed_memo :: pdf_doc where
  "signed_memo = injectSignature_doc memo memo_signature alice_key"

definition altered_memo :: pdf_doc where
  "altered_memo = signed_memo\<lparr>content := [37, 80, 68, 71]\<rparr>"

definition stranger_signature :: string where
  "stranger_signature = ''f1f2f3f4001804ff''"

definition stranger_memo :: pdf_doc where
  "stranger_memo = injectSignature_doc memo stranger_signature mallory_key"

definition untitled :: pdf_doc where
  "untitled = memo\<lparr>Title := None\<rparr>"

definition literal_memo :: pdf_doc where
  "literal_memo = memo\<lparr>Title := Some (PDFString ''Memo'')\<rparr>"

text \<open>
  The same libraries with a signature primitive that always throws, and a digest that
  is the toy digest on the files in layout 0 and a constant on all others.
\<close>

definition failing_signer :: "(pdf_doc \<times> nat) libs" where
  "failing_signer = toy_libs\<lparr>ed_sign := \<lambda>h k. Inl InvalidArgument\<rparr>"

definition layout_digest :: "pdf_doc \<times> nat \<Rightarrow> bytes" where
  "layout_digest b = (if snd b = 0 then toy_digest b else [9, 9, 9, 9])"

section \<open>Facts about the helpers\<close>

lemmas toy_simps = toy_libs_def toy_digest_def toy_tag_def alice_def alice_key_def mallory_key_def
  memo_def memo_signature_def pdf_request_def signed_memo_def altered_memo_def
  stranger_signature_def stranger_memo_def untitled_def literal_memo_def failing_signer_def
  layout_digest_def

lemmas info_simps = getTitle_def getSubject_def getKeywords_def getProducer_def getCreator_def
  setTitle_def setSubject_def setKeywords_def setProducer_def setCreator_def

lemmas pdf_simps = injectSignature_def injectSignature_doc_def normalizePdf_def
  extractAndStripSignature_def extractAndStripSignature_doc_def info_simps
  SIGNATURE_KEY_def OWNER_KEY_def regex_match_def regex_remove_def js_or_def
  hashPdfBuffer_def sha256_def is_hex_def is_space_def trim_def






section \<open>The signature engine\<close>

text \<open>
  C6. For every signature string, digest and public-key string, malformed or not,
  \<open>verifySignature\<close> returns a boolean and propagates no exception: its result is never
  \<open>Inl\<close>, and when the library's verification throws on the decoded inputs the result
  is \<open>false\<close>.
\<close>

theorem verifySignature_never_throws:
  "(\<exists>b. verifySignature L sig hash pk = Inr b) \<and>
   (\<forall>e. ed_verify L (buffer_from_hex sig) hash (buffer_from_hex pk) = Inl e \<longrightarrow>
        verifySignature L sig hash pk = Inr False)"
  by (cases "ed_verify L (buffer_from_hex sig) hash (buffer_from_hex pk)")
     (auto simp: verifySignature_def try_catch_def)

text \<open>
  A signature string that is not hex decodes to a buffer of the wrong length, the
  library throws, and the result is \<open>false\<close>.
\<close>

theorem verifySignature_never_throws_witness:
  "ed_verify toy_libs (buffer_from_hex ''0g'') [1, 2] (buffer_from_hex ''0102'') =
     Inl InvalidArgument \<and>
   verifySignature toy_libs ''0g'' [1, 2] ''0102'' = Inr False"
  using verifySignature_never_throws [of toy_libs "''0g''" "[1, 2]" "''0102''"]
  by (simp add: toy_libs_def hex_val_def)

section \<open>The envelope codec\<close>

text \<open>
  C3, as the code has it. For every parsable document, signature and public key,
  \<open>injectSignature\<close> serialises a document whose Producer is the text of the existing
  Producer (or the empty string) followed by \<open>||AegisSign_Signature:\<close> and the
  signature, and whose Creator is the text of the existing Creator (or the empty string)
  followed by \<open>||AegisSign_Owner:\<close> and the public key, both written as hex strings.
\<close>

theorem injectSignature_tokens:
  "pdf_load L c = Inr d \<Longrightarrow>
   injectSignature L c sig pk = Inr (pdf_save L (injectSignature_doc d sig pk)) \<and>
   Producer (injectSignature_doc d sig pk) =
     Some (PDFHexString (js_or (getProducer d) [] @ ''||AegisSign_Signature:'' @ sig)) \<and>
   Creator (injectSignature_doc d sig pk) =
     Some (PDFHexString (js_or (getCreator d) [] @ ''||AegisSign_Owner:'' @ pk)) \<and>
   getProducer (injectSignature_doc d sig pk) =
     Some (js_or (getProducer d) [] @ ''||AegisSign_Signature:'' @ sig) \<and>
   getCreator (injectSignature_doc d sig pk) =
     Some (js_or (getCreator d) [] @ ''||AegisSign_Owner:'' @ pk)"
  by (simp add: injectSignature_def injectSignature_doc_def info_simps
      SIGNATURE_KEY_def OWNER_KEY_def Let_def)

text \<open>The memo, with Producer \<open>Writer\<close> and Creator \<open>Office\<close>.\<close>

theorem injectSignature_tokens_witness:
  "pdf_load toy_libs (memo, 3) = Inr memo \<and>
   injectSignature toy_libs (memo, 3) ''ab12'' ''cd34'' =
     Inr (pdf_save toy_libs (injectSignature_doc memo ''ab12'' ''cd34'')) \<and>
   Producer (injectSignature_doc memo ''ab12'' ''cd34'') =
     Some (PDFHexString ''Writer||AegisSign_Signature:ab12'') \<and>
   Creator (injectSignature_doc memo ''ab12'' ''cd34'') =
     Some (PDFHexString ''Office||AegisSign_Owner:cd34'')"
  using injectSignature_tokens [of toy_libs "(memo, 3)" memo "''ab12''" "''cd34''"]
  by (simp add: toy_libs_def memo_def js_or_def getProducer_def getCreator_def)

text \<open>
  C3, as the specification words it, fails: the tokens written into the memo are not
  \<open>||SIG:ab12\<close> and \<open>||KEY:cd34\<close> appended to the existing values.
\<close>

theorem injectSignature_tag_counterexample:
  "injectSignature toy_libs (memo, 0) ''ab12'' ''cd34'' =
     Inr (injectSignature_doc memo ''ab12'' ''cd34'', 0) \<and>
   getProducer (injectSignature_doc memo ''ab12'' ''cd34'') \<noteq>
     Some (js_or (getProducer memo) [] @ ''||SIG:'' @ ''ab12'') \<and>
   getCreator (injectSignature_doc memo ''ab12'' ''cd34'') \<noteq>
     Some (js_or (getCreator memo) [] @ ''||KEY:'' @ ''cd34'')"
  by (simp add: toy_simps pdf_simps)

section \<open>The verification orchestrators\<close>

text \<open>
  What each controller answers once a signed PDF was uploaded and the envelope was
  extracted.
\<close>

lemma verifyDocument_registry_found:
  assumes "req_file req = Some f" and "mimetype f = ''application/pdf''"
    and "extractAndStripSignature L (buffer f) = Inr (Some ex)"
  shows "verifyDocument_registry L req =
     (case Document_findOne L (signature ex) of
        Inl e \<Rightarrow> Inr (Json 500 ((json False ''An error occurred while verifying the document.'')
                                \<lparr>verified := Some False\<rparr>))
      | Inr documentRecord \<Rightarrow>
          (case (case documentRecord of None \<Rightarrow> None
                 | Some r \<Rightarrow> map_option (Pair r) (signer r)) of
             None \<Rightarrow>
               Inr (Json 200
                     ((json True ''Document signature not found in registry.'')
                       \<lparr>verified := Some False,
                        error := Some ''Signature not registered in database.''\<rparr>))
           | Some (r, sg) \<Rightarrow>
               if publicKey ex \<noteq> signer_publicKey sg then
                 Inr (Json 200
                       ((json True
                          ''Public key mismatch. Document may have been tampered with.'')
                         \<lparr>verified := Some False,
                          signerPublicKey := Some (signer_publicKey sg)\<rparr>))
               else
                 Inr (Json 200
                       ((json True (''Document verified! Signed by '' @ signer_email sg))
                         \<lparr>verified := Some True,
                          signerEmail := Some (signer_email sg),
                          signerPublicKey := Some (signer_publicKey sg),
                          signedAt := Some (createdAt r)\<rparr>))))"
  using assms
  by (simp add: verifyDocument_registry_def verifyDocument_registry_try_def try_catch_def
      split: sum.splits option.splits)

lemma verifyDocument_checked:
  assumes "req_file req = Some f" and "mimetype f = ''application/pdf''"
    and "extractAndStripSignature L (buffer f) = Inr (Some ex)"
    and "verifySignature L (signature ex) (hashPdfBuffer L (strippedPdfBuffer ex))
           (publicKey ex) = Inr isValid"
  shows "verifyDocument L req =
     (if isValid then
        (case User_findOne L (publicKey ex) of
           Inl e \<Rightarrow> Inr (Json 500 ((json False ''An error occurred while verifying the document.'')
                                   \<lparr>verified := Some False\<rparr>))
         | Inr signerOpt \<Rightarrow>
             Inr (Json 200
                   ((json True
                       (case signerOpt of
                          Some u \<Rightarrow> ''Document verified! Signed by '' @ u_email u
                        | None \<Rightarrow> ''Document verified! Signature is valid.''))
                     \<lparr>verified := Some True, signerPublicKey := Some (publicKey ex)\<rparr>)))
      else
        Inr (Json 200
              ((json True
                 ''Signature verification failed. Document may have been tampered with.'')
                \<lparr>verified := Some False, signerPublicKey := Some (publicKey ex)\<rparr>)))"
  using assms
  by (simp add: verifyDocument_def verifyDocument_try_def try_catch_def split: sum.splits)

lemma stranger_memo_extracted:
  "extractAndStripSignature toy_libs (stranger_memo, 0) =
     Inr (Some \<lparr>signature = stranger_signature, publicKey = mallory_key,
                strippedPdfBuffer = (memo, 0)\<rparr>)"
  by (simp add: toy_simps pdf_simps)

lemma stranger_memo_verifies:
  "verifySignature toy_libs stranger_signature (hashPdfBuffer toy_libs (memo, 0)) mallory_key =
     Inr True"
  by (simp add: toy_simps pdf_simps verifySignature_def try_catch_def hex_val_def)

text \<open>
  C10. In the registry-backed controller the answer is a function of the extracted
  signature and public key and of the registry: two uploads from which extraction gives
  the same signature and the same public key get the same response, whatever the rest
  of the two documents is.
\<close>

theorem verifyDocument_registry_ignores_content:
  assumes "extractAndStripSignature L (buffer f1) = Inr (Some e1)"
    and "extractAndStripSignature L (buffer f2) = Inr (Some e2)"
    and "signature e1 = signature e2" and "publicKey e1 = publicKey e2"
    and "mimetype f1 = mimetype f2"
  shows "verifyDocument_registry L (r1\<lparr>req_file := Some f1\<rparr>) =
         verifyDocument_registry L (r2\<lparr>req_file := Some f2\<rparr>)"
proof (cases "mimetype f1 = ''application/pdf''")
  case True
  then have pdf2: "mimetype f2 = ''application/pdf''"
    using assms(5) by simp
  have run1: "req_file (r1\<lparr>req_file := Some f1\<rparr>) = Some f1"
    and run2: "req_file (r2\<lparr>req_file := Some f2\<rparr>) = Some f2"
    by simp_all
  show ?thesis
    unfolding verifyDocument_registry_found [OF run1 True assms(1)]
      verifyDocument_registry_found [OF run2 pdf2 assms(2)] assms(3) assms(4)
    by (rule refl)
next
  case False
  with assms show ?thesis
    by (simp add: verifyDocument_registry_def verifyDocument_registry_try_def)
qed

text \<open>
  The signed memo and the memo with one content byte changed carry the same tokens, and
  get the same answer.
\<close>

theorem verifyDocument_registry_ignores_content_witness:
  "extractAndStripSignature toy_libs (signed_memo, 0) =
     Inr (Some \<lparr>signature = memo_signature, publicKey = alice_key,
                strippedPdfBuffer = (memo, 0)\<rparr>) \<and>
   extractAndStripSignature toy_libs (altered_memo, 0) =
     Inr (Some \<lparr>signature = memo_signature, publicKey = alice_key,
                strippedPdfBuffer = (memo\<lparr>content := [37, 80, 68, 71]\<rparr>, 0)\<rparr>) \<and>
   (signed_memo, 0 :: nat) \<noteq> (altered_memo, 0) \<and>
   verifyDocument_registry toy_libs (pdf_request (signed_memo, 0) []) =
   verifyDocument_registry toy_libs (pdf_request (altered_memo, 0) [])"
proof -
  let ?f1 = "\<lparr>buffer = (signed_memo, 0 :: nat), mimetype = ''application/pdf'',
              originalname = ''memo.pdf''\<rparr>"
  let ?f2 = "\<lparr>buffer = (altered_memo, 0 :: nat), mimetype = ''application/pdf'',
              originalname = ''memo.pdf''\<rparr>"
  let ?r = "\<lparr>userId = ''u1'', req_file = None, password = []\<rparr> :: (pdf_doc \<times> nat) request"
  have e1: "extractAndStripSignature toy_libs (buffer ?f1) =
     Inr (Some \<lparr>signature = memo_signature, publicKey = alice_key,
                strippedPdfBuffer = (memo, 0)\<rparr>)"
    by (simp add: toy_simps pdf_simps)
  have e2: "extractAndStripSignature toy_libs (buffer ?f2) =
     Inr (Some \<lparr>signature = memo_signature, publicKey = alice_key,
                strippedPdfBuffer = (memo\<lparr>content := [37, 80, 68, 71]\<rparr>, 0)\<rparr>)"
    by (simp add: toy_simps pdf_simps)
  have differ: "(signed_memo, 0 :: nat) \<noteq> (altered_memo, 0)"
    by (simp add: toy_simps pdf_simps)
  have "verifyDocument_registry toy_libs (?r\<lparr>req_file := Some ?f1\<rparr>) =
        verifyDocument_registry toy_libs (?r\<lparr>req_file := Some ?f2\<rparr>)"
    by (rule verifyDocument_registry_ignores_content [OF e1 e2]) simp_all
  with e1 e2 differ show ?thesis
    by (simp add: pdf_request_def)
qed

text \<open>
  C1, at a failing input. The memo that \<open>alice\<close> signed, with one content byte changed:
  the signature does not verify over the digest of the stripped bytes, the controller
  that checks the signature answers \<open>verified: false\<close>, and the registry-backed
  controller answers \<open>verified: true\<close>.
\<close>

theorem verifyDocument_registry_accepts_altered_content:
  "extractAndStripSignature toy_libs (altered_memo, 0) =
     Inr (Some \<lparr>signature = memo_signature, publicKey = alice_key,
                strippedPdfBuffer = (memo\<lparr>content := [37, 80, 68, 71]\<rparr>, 0)\<rparr>) \<and>
   verifySignature toy_libs memo_signature
     (hashPdfBuffer toy_libs (memo\<lparr>content := [37, 80, 68, 71]\<rparr>, 0)) alice_key = Inr False \<and>
   verifyDocument_registry toy_libs (pdf_request (altered_memo, 0) []) =
     Inr (Json 200
           ((json True ''Document verified! Signed by alice@example.org'')
             \<lparr>verified := Some True, signerEmail := Some ''alice@example.org'',
              signerPublicKey := Some alice_key, signedAt := Some 17\<rparr>)) \<and>
   verifyDocument toy_libs (pdf_request (altered_memo, 0) []) =
     Inr (Json 200
           ((json True ''Signature verification failed. Document may have been tampered with.'')
             \<lparr>verified := Some False, signerPublicKey := Some alice_key\<rparr>))"
  by (simp add: toy_simps pdf_simps verifyDocument_registry_def verifyDocument_registry_try_def
      verifyDocument_def verifyDocument_try_def verifySignature_def try_catch_def json_def
      hex_val_def)

text \<open>
  C4, as the code has it. For an upload from which a signature and a public key were
  extracted: when the registry has no record for the signature, or a record without a
  signer, the registry-backed controller answers \<open>Document signature not found in
  registry\<close> with \<open>verified: false\<close>; when the signature verifies and no user has the
  public key, the controller that checks the signature answers \<open>verified: true\<close>, with
  a message that names no signer.
\<close>

theorem unregistered_outcomes:
  assumes "req_file req = Some f" and "mimetype f = ''application/pdf''"
    and "extractAndStripSignature L (buffer f) = Inr (Some ex)"
  shows "(Document_findOne L (signature ex) = Inr None \<or>
          (\<exists>r. Document_findOne L (signature ex) = Inr (Some r) \<and> signer r = None) \<longrightarrow>
          verifyDocument_registry L req =
            Inr (Json 200
                  ((json True ''Document signature not found in registry.'')
                    \<lparr>verified := Some False,
                     error := Some ''Signature not registered in database.''\<rparr>))) \<and>
         (verifySignature L (signature ex) (hashPdfBuffer L (strippedPdfBuffer ex))
            (publicKey ex) = Inr True \<and>
          User_findOne L (publicKey ex) = Inr None \<longrightarrow>
          verifyDocument L req =
            Inr (Json 200
                  ((json True ''Document verified! Signature is valid.'')
                    \<lparr>verified := Some True, signerPublicKey := Some (publicKey ex)\<rparr>)))"
proof (intro conjI impI)
  assume "Document_findOne L (signature ex) = Inr None \<or>
          (\<exists>r. Document_findOne L (signature ex) = Inr (Some r) \<and> signer r = None)"
  then show "verifyDocument_registry L req =
            Inr (Json 200
                  ((json True ''Document signature not found in registry.'')
                    \<lparr>verified := Some False,
                     error := Some ''Signature not registered in database.''\<rparr>))"
    by (auto simp: verifyDocument_registry_found [OF assms])
next
  assume "verifySignature L (signature ex) (hashPdfBuffer L (strippedPdfBuffer ex))
            (publicKey ex) = Inr True \<and>
          User_findOne L (publicKey ex) = Inr None"
  then show "verifyDocument L req =
            Inr (Json 200
                  ((json True ''Document verified! Signature is valid.'')
                    \<lparr>verified := Some True, signerPublicKey := Some (publicKey ex)\<rparr>))"
    by (simp add: verifyDocument_checked [OF assms, of True])
qed

text \<open>
  The memo signed with a key of no stored user: absent from the registry, and valid
  under its own key.
\<close>

theorem unregistered_outcomes_witness:
  "extractAndStripSignature toy_libs (stranger_memo, 0) =
     Inr (Some \<lparr>signature = stranger_signature, publicKey = mallory_key,
                strippedPdfBuffer = (memo, 0)\<rparr>) \<and>
   Document_findOne toy_libs stranger_signature = Inr None \<and>
   verifyDocument_registry toy_libs (pdf_request (stranger_memo, 0) []) =
     Inr (Json 200
           ((json True ''Document signature not found in registry.'')
             \<lparr>verified := Some False,
              error := Some ''Signature not registered in database.''\<rparr>)) \<and>
   verifySignature toy_libs stranger_signature (hashPdfBuffer toy_libs (memo, 0)) mallory_key =
     Inr True \<and>
   User_findOne toy_libs mallory_key = Inr None \<and>
   verifyDocument toy_libs (pdf_request (stranger_memo, 0) []) =
     Inr (Json 200
           ((json True ''Document verified! Signature is valid.'')
             \<lparr>verified := Some True, signerPublicKey := Some mallory_key\<rparr>))"
proof -
  have absent: "Document_findOne toy_libs stranger_signature = Inr None"
    by (simp add: toy_libs_def stranger_signature_def memo_signature_def)
  have nobody: "User_findOne toy_libs mallory_key = Inr None"
    by (simp add: toy_libs_def alice_def alice_key_def mallory_key_def)
  have "req_file (pdf_request (stranger_memo, 0) []) =
          Some \<lparr>buffer = (stranger_memo, 0), mimetype = ''application/pdf'',
                originalname = ''memo.pdf''\<rparr>"
    by (simp add: pdf_request_def)
  from unregistered_outcomes [OF this _ , where ex = "\<lparr>signature = stranger_signature, publicKey = mallory_key,
                strippedPdfBuffer = (memo, 0)\<rparr>" and L = toy_libs]
    stranger_memo_extracted stranger_memo_verifies absent nobody
  show ?thesis by simp
qed

text \<open>
  C4, as the specification words it, fails: a signature that verifies, with no registry
  record and no identity for its key, is reported by the controller that checks the
  signature as verified.
\<close>

theorem valid_without_identity_counterexample:
  "verifySignature toy_libs stranger_signature (hashPdfBuffer toy_libs (memo, 0)) mallory_key =
     Inr True \<and>
   User_findOne toy_libs mallory_key = Inr None \<and>
   Document_findOne toy_libs stranger_signature = Inr None \<and>
   verifyDocument toy_libs (pdf_request (stranger_memo, 0) []) =
     Inr (Json 200
           \<lparr>success = True, message = ''Document verified! Signature is valid.'',
            verified = Some True, signerEmail = None, signerPublicKey = Some mallory_key,
            signedAt = None, error = None\<rparr>)"
  by (simp add: toy_simps pdf_simps verifyDocument_def verifyDocument_try_def
      verifySignature_def try_catch_def json_def hex_val_def)


section \<open>Key wrapping and the signing orchestrator\<close>



text \<open>
  \<open>decryptPrivateKey\<close> is the cipher's decision on the decoded nonce, ciphertext and tag;
  when the cipher accepts, the plaintext is in two new arrays, and the address returned
  is that of the second.
\<close>

lemma decryptPrivateKey_unfold:
  "decryptPrivateKey L encrypted ivHex k hp =
     (case gcm_open L k (buffer_from_hex ivHex) (encryptedData_of (buffer_from_hex encrypted))
             (authTag_of (buffer_from_hex encrypted)) of
        Inl e \<Rightarrow> (Inl e, hp)
      | Inr plaintext \<Rightarrow> (Inr (Suc (length hp)), hp @ [plaintext, plaintext]))"
  by (simp add: decryptPrivateKey_def alloc_def Let_def split: sum.splits)









lemma alice_key_decrypts:
  "decryptPrivateKey L (u_encryptedPrivateKey alice) (u_iv alice)
     (dek (deriveKeyFromPassword L rnd ''hunter2'' (Some (u_salt alice)))) hp =
   (case gcm_open L (pbkdf2Sync L ''hunter2'' [7, 7, 7, 7] 100000 32) [9, 9, 9, 9] [1, 2, 3, 4]
           [104, 117, 110, 116, 101, 114, 50, 7, 7, 7, 7, 0, 0, 0, 0, 0] of
      Inl e \<Rightarrow> (Inl e, hp)
    | Inr plaintext \<Rightarrow> (Inr (Suc (length hp)), hp @ [plaintext, plaintext]))"
  by (simp add: decryptPrivateKey_unfold)
     (simp add: alice_def deriveKeyFromPassword_def hex_val_def authTag_of_def
        encryptedData_of_def subarray_def rel_index_def Let_def)





section \<open>Digests\<close>

lemma sha256_digest_update_simps:
  "normalizePdf (L\<lparr>sha256_digest := h\<rparr>) x = normalizePdf L x"
  "injectSignature (L\<lparr>sha256_digest := h\<rparr>) x s k = injectSignature L x s k"
  "extractAndStripSignature (L\<lparr>sha256_digest := h\<rparr>) x = extractAndStripSignature L x"
  "deriveKeyFromPassword (L\<lparr>sha256_digest := h\<rparr>) rnd pw st = deriveKeyFromPassword L rnd pw st"
  "decryptPrivateKey (L\<lparr>sha256_digest := h\<rparr>) c n key hp = decryptPrivateKey L c n key hp"
  "signHash (L\<lparr>sha256_digest := h\<rparr>) dg raw = signHash L dg raw"
  "verifySignature (L\<lparr>sha256_digest := h\<rparr>) s dg p = verifySignature L s dg p"
  "hashPdfBuffer (L\<lparr>sha256_digest := h\<rparr>) x = h x"
  by (simp_all add: normalizePdf_def injectSignature_def extractAndStripSignature_def
      deriveKeyFromPassword_def decryptPrivateKey_def signHash_def verifySignature_def
      hashPdfBuffer_def sha256_def split: sum.splits option.splits prod.splits)

lemma signDocument_handler_digest:
  assumes "req_file req = Some f" and "pdf_load L (buffer f) = Inr d"
    and "h (pdf_save L d) = sha256_digest L (pdf_save L d)"
  shows "signDocument_handler registry (L\<lparr>sha256_digest := h\<rparr>) req =
         signDocument_handler registry L req"
proof -
  have n: "normalizePdf L (buffer f) = Inr (pdf_save L d)"
    using assms(2) by (simp add: normalizePdf_def)
  have "signDocument_try registry (L\<lparr>sha256_digest := h\<rparr>) req st =
        signDocument_try registry L req st" for st
    using assms(1,3) n
    by (simp add: signDocument_try_def sha256_digest_update_simps hashPdfBuffer_def
        sha256_def Let_def cong: sum.case_cong option.case_cong if_cong)
  then show ?thesis
    by (simp add: signDocument_handler_def)
qed

lemma verifyDocument_digest:
  assumes "req_file req = Some f" and "pdf_load L (buffer f) = Inr d"
    and "\<forall>sig pk d'. extractAndStripSignature_doc d = Some (sig, pk, d') \<longrightarrow>
           h (pdf_save L d') = sha256_digest L (pdf_save L d')"
  shows "verifyDocument (L\<lparr>sha256_digest := h\<rparr>) req = verifyDocument L req"
proof (cases "extractAndStripSignature_doc d")
  case None
  with assms(1,2) show ?thesis
    by (simp add: verifyDocument_def verifyDocument_try_def sha256_digest_update_simps
        extractAndStripSignature_def cong: sum.case_cong option.case_cong if_cong)
next
  case (Some t)
  obtain sig pk d' where t: "t = (sig, pk, d')" by (cases t)
  with Some assms(3) have "h (pdf_save L d') = sha256_digest L (pdf_save L d')" by simp
  with Some t assms(1,2) show ?thesis
    by (simp add: verifyDocument_def verifyDocument_try_def sha256_digest_update_simps
        extractAndStripSignature_def hashPdfBuffer_def sha256_def
        cong: sum.case_cong option.case_cong if_cong)
qed

lemma verifyDocument_registry_digest:
  "verifyDocument_registry (L\<lparr>sha256_digest := h\<rparr>) req = verifyDocument_registry L req"
  by (simp add: verifyDocument_registry_def verifyDocument_registry_try_def
      sha256_digest_update_simps cong: sum.case_cong option.case_cong if_cong)

lemma signDocument_handler_signs_canonical_digest:
  assumes "req_file req = Some f" and "pdf_load L (buffer f) = Inr d"
    and "signDocument_handler registry L req = (Send hs out, st)"
  shows "\<exists>u a hp sigHex.
           User_findById L (userId req) = Inr (Some u) \<and>
           decryptPrivateKey L (u_encryptedPrivateKey u) (u_iv u)
             (dek (deriveKeyFromPassword L (randomBytes L 32) (password req)
                     (Some (u_salt u)))) [] = (Inr a, hp) \<and>
           signHash L (sha256_digest L (pdf_save L d)) (hp ! a) = Inr sigHex \<and>
           injectSignature L (pdf_save L d) sigHex (u_publicKey u) = Inr out"
  using assms
  by (auto simp: signDocument_handler_def signDocument_try_def normalizePdf_def
      hashPdfBuffer_def sha256_def Let_def
      split: if_splits sum.splits option.splits prod.splits)

lemma verifyDocument_verified_digest:
  assumes "req_file req = Some f" and "pdf_load L (buffer f) = Inr d"
    and "verifyDocument L req = Inr (Json code body)" and "verified body = Some True"
  shows "\<exists>sig pk d'.
           extractAndStripSignature_doc d = Some (sig, pk, d') \<and>
           verifySignature L sig (sha256_digest L (pdf_save L d')) pk = Inr True"
  using assms
  by (auto simp: verifyDocument_def verifyDocument_try_def try_catch_def
      extractAndStripSignature_def hashPdfBuffer_def sha256_def json_def
      split: if_splits sum.splits option.splits prod.splits)

text \<open>
  C9. The signing and verification workflows hash canonical bytes, and consult the hash
  function nowhere else. For an upload that parses to \<open>d\<close>: a signed PDF sent back by
  either \<open>signDocument\<close> carries a signature over the digest of the serialisation of
  \<open>d\<close>; the \<open>verifyDocument\<close> that checks the signature answers \<open>verified: true\<close> only
  if the extracted signature verifies over the digest of the serialisation of the
  stripped document; replacing the hash function by one that agrees with it on the
  serialisation of \<open>d\<close> changes nothing in either \<open>signDocument\<close>; replacing it by one
  that agrees with it on the serialisation of the stripped document changes nothing in
  that \<open>verifyDocument\<close>; and the registry-backed \<open>verifyDocument\<close> does not depend on
  the hash function.
\<close>

theorem digests_over_canonical_bytes:
  assumes "req_file req = Some f" and "pdf_load L (buffer f) = Inr d"
  shows "(\<forall>hs out st.
            signDocument L req = (Send hs out, st) \<or>
            signDocument_registry L req = (Send hs out, st) \<longrightarrow>
            (\<exists>u a hp sigHex.
               User_findById L (userId req) = Inr (Some u) \<and>
               decryptPrivateKey L (u_encryptedPrivateKey u) (u_iv u)
                 (dek (deriveKeyFromPassword L (randomBytes L 32) (password req)
                         (Some (u_salt u)))) [] = (Inr a, hp) \<and>
               signHash L (sha256_digest L (pdf_save L d)) (hp ! a) = Inr sigHex \<and>
               injectSignature L (pdf_save L d) sigHex (u_publicKey u) = Inr out)) \<and>
         (\<forall>code body.
            verifyDocument L req = Inr (Json code body) \<and> verified body = Some True \<longrightarrow>
            (\<exists>sig pk d'.
               extractAndStripSignature_doc d = Some (sig, pk, d') \<and>
               verifySignature L sig (sha256_digest L (pdf_save L d')) pk = Inr True)) \<and>
         (h (pdf_save L d) = sha256_digest L (pdf_save L d) \<longrightarrow>
            signDocument (L\<lparr>sha256_digest := h\<rparr>) req = signDocument L req \<and>
            signDocument_registry (L\<lparr>sha256_digest := h\<rparr>) req = signDocument_registry L req) \<and>
         ((\<forall>sig pk d'. extractAndStripSignature_doc d = Some (sig, pk, d') \<longrightarrow>
              h (pdf_save L d') = sha256_digest L (pdf_save L d')) \<longrightarrow>
            verifyDocument (L\<lparr>sha256_digest := h\<rparr>) req = verifyDocument L req) \<and>
         verifyDocument_registry (L\<lparr>sha256_digest := h\<rparr>) req = verifyDocument_registry L req"
proof (intro conjI allI impI)
  fix hs out st
  assume "signDocument L req = (Send hs out, st) \<or>
          signDocument_registry L req = (Send hs out, st)"
  then show "\<exists>u a hp sigHex.
               User_findById L (userId req) = Inr (Some u) \<and>
               decryptPrivateKey L (u_encryptedPrivateKey u) (u_iv u)
                 (dek (deriveKeyFromPassword L (randomBytes L 32) (password req)
                         (Some (u_salt u)))) [] = (Inr a, hp) \<and>
               signHash L (sha256_digest L (pdf_save L d)) (hp ! a) = Inr sigHex \<and>
               injectSignature L (pdf_save L d) sigHex (u_publicKey u) = Inr out"
    unfolding signDocument_def signDocument_registry_def
    using signDocument_handler_signs_canonical_digest [OF assms] by blast
next
  fix code body
  assume "verifyDocument L req = Inr (Json code body) \<and> verified body = Some True"
  then show "\<exists>sig pk d'.
               extractAndStripSignature_doc d = Some (sig, pk, d') \<and>
               verifySignature L sig (sha256_digest L (pdf_save L d')) pk = Inr True"
    using verifyDocument_verified_digest [OF assms] by blast
next
  assume same: "h (pdf_save L d) = sha256_digest L (pdf_save L d)"
  show "signDocument (L\<lparr>sha256_digest := h\<rparr>) req = signDocument L req"
    and "signDocument_registry (L\<lparr>sha256_digest := h\<rparr>) req = signDocument_registry L req"
    unfolding signDocument_def signDocument_registry_def
    using signDocument_handler_digest [OF assms, where h = h] same by simp_all
next
  assume "\<forall>sig pk d'. extractAndStripSignature_doc d = Some (sig, pk, d') \<longrightarrow>
              h (pdf_save L d') = sha256_digest L (pdf_save L d')"
  then show "verifyDocument (L\<lparr>sha256_digest := h\<rparr>) req = verifyDocument L req"
    by (rule verifyDocument_digest [OF assms])
next
  show "verifyDocument_registry (L\<lparr>sha256_digest := h\<rparr>) req = verifyDocument_registry L req"
    by (rule verifyDocument_registry_digest)
qed

lemma layout_digest_canonical: "layout_digest (pdf_save toy_libs d) = sha256_digest toy_libs (pdf_save toy_libs d)"
  by (simp add: layout_digest_def toy_libs_def)

text \<open>
  A digest that differs from the toy digest on the uploaded files, which are in layout
  3, and agrees with it on every file the serialiser writes.
\<close>

theorem digests_over_canonical_bytes_witness:
  "layout_digest (memo, 3) \<noteq> sha256_digest toy_libs (memo, 3) \<and>
   layout_digest (signed_memo, 3) \<noteq> sha256_digest toy_libs (signed_memo, 3) \<and>
   signHash toy_libs (sha256_digest toy_libs (pdf_save toy_libs memo)) [1, 2, 3, 4] =
     Inr memo_signature \<and>
   verifySignature toy_libs memo_signature (sha256_digest toy_libs (pdf_save toy_libs memo))
     alice_key = Inr True \<and>
   signDocument (toy_libs\<lparr>sha256_digest := layout_digest\<rparr>) (pdf_request (memo, 3) ''hunter2'') =
     signDocument toy_libs (pdf_request (memo, 3) ''hunter2'') \<and>
   signDocument_registry (toy_libs\<lparr>sha256_digest := layout_digest\<rparr>)
       (pdf_request (memo, 3) ''hunter2'') =
     signDocument_registry toy_libs (pdf_request (memo, 3) ''hunter2'') \<and>
   verifyDocument (toy_libs\<lparr>sha256_digest := layout_digest\<rparr>) (pdf_request (signed_memo, 3) []) =
     verifyDocument toy_libs (pdf_request (signed_memo, 3) [])"
proof -
  have raw: "layout_digest (memo, 3) \<noteq> sha256_digest toy_libs (memo, 3)"
    "layout_digest (signed_memo, 3) \<noteq> sha256_digest toy_libs (signed_memo, 3)"
    by (simp_all add: layout_digest_def toy_libs_def toy_digest_def)
  have signs: "signHash toy_libs (sha256_digest toy_libs (pdf_save toy_libs memo)) [1, 2, 3, 4] =
     Inr memo_signature"
    by (simp add: toy_simps info_simps signHash_def js_or_def to_hex_string_def hex_digit_def)
  have verifies: "verifySignature toy_libs memo_signature
     (sha256_digest toy_libs (pdf_save toy_libs memo)) alice_key = Inr True"
    by (simp add: toy_simps info_simps verifySignature_def try_catch_def js_or_def
        hex_val_def)
  have f: "req_file (pdf_request b pw) =
             Some \<lparr>buffer = b, mimetype = ''application/pdf'', originalname = ''memo.pdf''\<rparr>"
    for b :: "pdf_doc \<times> nat" and pw
    by (simp add: pdf_request_def)
  have l: "pdf_load toy_libs (buffer \<lparr>buffer = (d, 3 :: nat), mimetype = ''application/pdf'',
             originalname = ''memo.pdf''\<rparr>) = Inr d" for d
    by (simp add: toy_libs_def)
  from digests_over_canonical_bytes [OF f [of "(memo, 3)" "''hunter2''"] l [of memo],
      where h = layout_digest]
    digests_over_canonical_bytes [OF f [of "(signed_memo, 3)" "[]"] l [of signed_memo],
      where h = layout_digest]
    layout_digest_canonical raw signs verifies
  show ?thesis by simp
qed

section \<open>The envelope round trip\<close>

text \<open>
  C2, at a failing input. The memo without a title is canonical; \<open>injectSignature\<close>
  gives it the title \<open>Signed Document\<close>, \<open>extractAndStripSignature\<close> returns the
  signature and the key and removes the two tokens but not the title, and the stripped
  bytes differ from the canonical bytes that went in.
\<close>

theorem strip_does_not_restore_untitled:
  "normalizePdf toy_libs (untitled, 0) = Inr (untitled, 0) \<and>
   injectSignature toy_libs (untitled, 0) memo_signature alice_key =
     Inr (injectSignature_doc untitled memo_signature alice_key, 0) \<and>
   extractAndStripSignature toy_libs (injectSignature_doc untitled memo_signature alice_key, 0) =
     Inr (Some \<lparr>signature = memo_signature, publicKey = alice_key,
                strippedPdfBuffer =
                  (untitled\<lparr>Title := Some (PDFHexString ''Signed Document'')\<rparr>, 0)\<rparr>) \<and>
   (untitled\<lparr>Title := Some (PDFHexString ''Signed Document'')\<rparr>, 0 :: nat) \<noteq> (untitled, 0)"
  by (simp add: toy_simps pdf_simps)


text \<open>
  The consequence for the two controllers that rely on the round trip: the memo without
  a title, signed by \<open>signDocument\<close> and uploaded unchanged, is reported by
  \<open>verifyDocument\<close> as failing verification.
\<close>

lemma untitled_signed_then_rejected:
  "fst (signDocument toy_libs (pdf_request (untitled, 0) ''hunter2'')) =
     Send (sign_headers ''memo_signed.pdf'' ''01020304001504ff'' alice_key)
       (injectSignature_doc untitled ''01020304001504ff'' alice_key, 0) \<and>
   verifyDocument toy_libs
       (pdf_request (injectSignature_doc untitled ''01020304001504ff'' alice_key, 0) []) =
     Inr (Json 200
           ((json True ''Signature verification failed. Document may have been tampered with.'')
             \<lparr>verified := Some False, signerPublicKey := Some alice_key\<rparr>))"
proof -
  let ?req = "pdf_request (untitled, 0 :: nat) ''hunter2''"
  let ?f = "\<lparr>buffer = (untitled, 0 :: nat), mimetype = ''application/pdf'',
             originalname = ''memo.pdf''\<rparr>"
  have f: "req_file ?req = Some ?f" and pw: "password ?req = ''hunter2''"
    and u: "User_findById toy_libs (userId ?req) = Inr (Some alice)"
    by (simp_all add: pdf_request_def toy_libs_def alice_def)
  have n: "normalizePdf toy_libs (buffer ?f) = Inr (untitled, 0)"
    by (simp add: normalizePdf_def toy_libs_def)
  have k: "decryptPrivateKey toy_libs (u_encryptedPrivateKey alice) (u_iv alice)
             (dek (deriveKeyFromPassword toy_libs (randomBytes toy_libs 32) ''hunter2''
                     (Some (u_salt alice)))) [] = (Inr 1, [[1, 2, 3, 4], [1, 2, 3, 4]])"
    by (simp add: alice_key_decrypts) (simp add: toy_libs_def toy_tag_def)
  have "fst (signDocument toy_libs ?req) =
     Send (sign_headers ''memo_signed.pdf'' ''01020304001504ff'' alice_key)
       (injectSignature_doc untitled ''01020304001504ff'' alice_key, 0)"
    using f pw u n k
    by (simp add: signDocument_def signDocument_handler_def signDocument_try_def Let_def)
       (simp add: toy_simps pdf_simps signHash_def to_hex_string_def hex_digit_def)
  moreover have "verifyDocument toy_libs
       (pdf_request (injectSignature_doc untitled ''01020304001504ff'' alice_key, 0) []) =
     Inr (Json 200
           ((json True ''Signature verification failed. Document may have been tampered with.'')
             \<lparr>verified := Some False, signerPublicKey := Some alice_key\<rparr>))"
    by (simp add: toy_simps pdf_simps verifyDocument_def verifyDocument_try_def
        verifySignature_def try_catch_def json_def hex_val_def)
  ultimately show ?thesis by simp
qed


text \<open>
  The setters rewrite an entry also when its text does not change: the memo whose title
  is a literal string comes back from \<open>extractAndStripSignature\<close> with the title as a hex
  string, so the stripped bytes differ from the canonical bytes although no text of the
  metadata did.
\<close>

lemma strip_reencodes_literal_title:
  "normalizePdf toy_libs (literal_memo, 0) = Inr (literal_memo, 0) \<and>
   injectSignature toy_libs (literal_memo, 0) memo_signature alice_key =
     Inr (injectSignature_doc literal_memo memo_signature alice_key, 0) \<and>
   extractAndStripSignature toy_libs
       (injectSignature_doc literal_memo memo_signature alice_key, 0) =
     Inr (Some \<lparr>signature = memo_signature, publicKey = alice_key,
                strippedPdfBuffer = (memo, 0)\<rparr>) \<and>
   (memo, 0 :: nat) \<noteq> (literal_memo, 0)"
  by (simp add: toy_simps pdf_simps)

end
